theory Spec2Isabelle
  imports Complex_Main
begin

section \<open>Python values and the operations the service uses on them\<close>

text \<open>
  The service of \<^verbatim>\<open>backend/services/ai_service.py\<close> works on values produced
  by \<^verbatim>\<open>json.load\<close> and by the model runtime's client library: dictionaries, lists,
  text, numbers, booleans and \<^verbatim>\<open>None\<close>. A dictionary is an association list in
  insertion order, read with \<open>map_of\<close>. A character of a \<open>string\<close> stands for one character
  of a Python \<^verbatim>\<open>str\<close>. The non-finite floats that \<^verbatim>\<open>json.load\<close> accepts as an
  extension have no representative in \<open>JFloat\<close>.
\<close>

datatype json =
    JNull
  | JBool bool
  | JInt int
  | JFloat real
  | JStr string
  | JArr "json list"
  | JObj "(string \<times> json) list"

text \<open>
  Exceptions are values. \<open>OtherError\<close> carries the class name of an exception raised
  outside the service's own code (the file system, the JSON parser, the network).
\<close>

datatype py_error = AttributeError | TypeError | KeyError | OtherError string

definition then_do :: "py_error + 'a \<Rightarrow> ('a \<Rightarrow> py_error + 'b) \<Rightarrow> py_error + 'b" where
  "then_do r f = (case r of Inl e \<Rightarrow> Inl e | Inr v \<Rightarrow> f v)"

text \<open>Truth value of a Python object, as \<^verbatim>\<open>if x:\<close> tests it.\<close>

fun py_truthy :: "json \<Rightarrow> bool" where
  "py_truthy JNull = False"
| "py_truthy (JBool b) = b"
| "py_truthy (JInt i) = (i \<noteq> 0)"
| "py_truthy (JFloat r) = (r \<noteq> 0)"
| "py_truthy (JStr s) = (s \<noteq> [])"
| "py_truthy (JArr xs) = (xs \<noteq> [])"
| "py_truthy (JObj kvs) = (kvs \<noteq> [])"

text \<open>
  \<^verbatim>\<open>d.get(k, default)\<close>: only a dictionary has the method; on any other object the
  attribute lookup raises \<^verbatim>\<open>AttributeError\<close>.
\<close>

fun dict_get :: "json \<Rightarrow> string \<Rightarrow> json \<Rightarrow> py_error + json" where
  "dict_get (JObj kvs) k d = Inr (case map_of kvs k of None \<Rightarrow> d | Some v \<Rightarrow> v)"
| "dict_get _ k d = Inl AttributeError"

text \<open>\<^verbatim>\<open>config.get(section, {}).get(field, default)\<close>, the service's way to read a setting.\<close>

definition section_get :: "json \<Rightarrow> string \<Rightarrow> string \<Rightarrow> json \<Rightarrow> py_error + json" where
  "section_get config sec fld d = then_do (dict_get config sec (JObj [])) (\<lambda>s. dict_get s fld d)"

text \<open>\<^verbatim>\<open>x[k]\<close> with a text key.\<close>

fun py_getitem :: "json \<Rightarrow> string \<Rightarrow> py_error + json" where
  "py_getitem (JObj kvs) k = (case map_of kvs k of None \<Rightarrow> Inl KeyError | Some v \<Rightarrow> Inr v)"
| "py_getitem _ k = Inl TypeError"

text \<open>\<^verbatim>\<open>d[k] = v\<close>: an existing key keeps its place, a new key goes last.\<close>

fun dict_set :: "string \<Rightarrow> json \<Rightarrow> (string \<times> json) list \<Rightarrow> (string \<times> json) list" where
  "dict_set k v [] = [(k, v)]"
| "dict_set k v ((k', v') # kvs) = (if k = k' then (k, v) # kvs else (k', v') # dict_set k v kvs)"

text \<open>The elements a \<^verbatim>\<open>for\<close> loop visits: list items, dictionary keys, characters.\<close>

fun py_iter :: "json \<Rightarrow> py_error + json list" where
  "py_iter (JArr xs) = Inr xs"
| "py_iter (JObj kvs) = Inr (map (\<lambda>kv. JStr (fst kv)) kvs)"
| "py_iter (JStr s) = Inr (map (\<lambda>c. JStr [c]) s)"
| "py_iter _ = Inl TypeError"

text \<open>
  \<^verbatim>\<open>x += s\<close> for a text \<open>s\<close>: text is concatenated, a list is extended in place by the
  characters of \<open>s\<close>, every other object raises \<^verbatim>\<open>TypeError\<close>.
\<close>

fun py_iadd :: "json \<Rightarrow> string \<Rightarrow> py_error + json" where
  "py_iadd (JStr t) s = Inr (JStr (t @ s))"
| "py_iadd (JArr xs) s = Inr (JArr (xs @ map (\<lambda>c. JStr [c]) s))"
| "py_iadd _ s = Inl TypeError"

text \<open>
  \<^verbatim>\<open>str(x)\<close> inside an f-string: text is inserted as it is; how any other object is
  printed is a parameter of the model.
\<close>

fun py_str :: "(json \<Rightarrow> string) \<Rightarrow> json \<Rightarrow> string" where
  "py_str render (JStr s) = s"
| "py_str render v = render v"

section \<open>Personality configuration loader\<close>

text \<open>
  The file system maps a path to nothing when no file is there, and otherwise to what
  opening and parsing it gives: an exception or the parsed value. The loader reports the
  file-system accesses it made, in order. Logging is not part of the model.
\<close>

type_synonym filesystem = "string \<Rightarrow> (py_error + json) option"

datatype fs_access = PathExists string | OpenAndParse string

definition config_path :: string where
  "config_path = ''../../jarvis_personality.json''"

definition fallback_config_path :: string where
  "fallback_config_path = ''../jarvis_personality.json''"

definition fallback_config_path2 :: string where
  "fallback_config_path2 = ''jarvis_personality.json''"

definition default_base_personality :: string where
  "default_base_personality =
     ''You are Jarvis, an AI assistant inspired by Tony Stark'' @ [CHR 0x27] @
     ''s AI. Be helpful, intelligent, and slightly witty.''"

definition get_default_personality :: json where
  "get_default_personality =
     JObj [(''identity'', JObj [(''name'', JStr ''Jarvis''),
                                (''display_name'', JStr ''J.A.R.V.I.S.''),
                                (''role'', JStr ''AI Assistant'')]),
           (''personality'', JObj [(''base_personality'', JStr default_base_personality)])]"

definition path_exists :: "filesystem \<Rightarrow> string \<Rightarrow> bool" where
  "path_exists fs p = (fs p \<noteq> None)"

definition json_load :: "filesystem \<Rightarrow> string \<Rightarrow> py_error + json" where
  "json_load fs p = (case fs p of None \<Rightarrow> Inl (OtherError ''FileNotFoundError'') | Some r \<Rightarrow> r)"

text \<open>The body of the \<^verbatim>\<open>try\<close> block: the \<^verbatim>\<open>if\<close>/\<^verbatim>\<open>elif\<close> chain over the three paths.\<close>

definition load_attempt :: "filesystem \<Rightarrow> fs_access list \<times> (py_error + json)" where
  "load_attempt fs =
     (if path_exists fs config_path then
        ([PathExists config_path, OpenAndParse config_path], json_load fs config_path)
      else if path_exists fs fallback_config_path then
        ([PathExists config_path, PathExists fallback_config_path,
          OpenAndParse fallback_config_path], json_load fs fallback_config_path)
      else if path_exists fs fallback_config_path2 then
        ([PathExists config_path, PathExists fallback_config_path,
          PathExists fallback_config_path2, OpenAndParse fallback_config_path2],
         json_load fs fallback_config_path2)
      else
        ([PathExists config_path, PathExists fallback_config_path,
          PathExists fallback_config_path2], Inr get_default_personality))"

text \<open>The whole method: \<^verbatim>\<open>except Exception\<close> turns every failure of the body into the default.\<close>

definition load_personality_config :: "filesystem \<Rightarrow> fs_access list \<times> (py_error + json)" where
  "load_personality_config fs =
     (case load_attempt fs of
        (acc, Inl e) \<Rightarrow> (acc, Inr get_default_personality)
      | (acc, Inr config) \<Rightarrow> (acc, Inr config))"

section \<open>System prompt assembly\<close>

definition default_system_prompt :: string where
  "default_system_prompt = ''You are Jarvis, an AI assistant. Be helpful and intelligent.''"

text \<open>
  One conditional clause of the method, for a section object \<open>d\<close> and a key \<open>k\<close>:
  \<^verbatim>\<open>if d.get(k): system_prompt += f"{pre}{d[k]}{post}"\<close>.
\<close>

definition add_clause ::
  "(json \<Rightarrow> string) \<Rightarrow> json \<Rightarrow> string \<Rightarrow> string \<Rightarrow> string \<Rightarrow> json \<Rightarrow> py_error + json" where
  "add_clause render d k pre post system_prompt =
     then_do (dict_get d k JNull) (\<lambda>v.
       if py_truthy v then
         then_do (py_getitem d k) (\<lambda>w. py_iadd system_prompt (pre @ py_str render w @ post))
       else Inr system_prompt)"

text \<open>The same for a section read from the configuration with \<^verbatim>\<open>config.get(sec, {})\<close>.\<close>

definition section_clause ::
  "(json \<Rightarrow> string) \<Rightarrow> json \<Rightarrow> string \<Rightarrow> string \<Rightarrow> string \<Rightarrow> string \<Rightarrow> json \<Rightarrow> py_error + json"
  where
  "section_clause render config sec k pre post system_prompt =
     then_do (dict_get config sec (JObj [])) (\<lambda>d. add_clause render d k pre post system_prompt)"

text \<open>
  The statements run in order on the variable \<^verbatim>\<open>system_prompt\<close>; a run is its current
  value and the exception raised so far, if any. After an exception nothing more runs.
\<close>

type_synonym prompt_run = "json \<times> py_error option"

definition run_step :: "prompt_run \<Rightarrow> (json \<Rightarrow> py_error + json) \<Rightarrow> prompt_run" where
  "run_step run f =
     (case run of
        (p, Some e) \<Rightarrow> (p, Some e)
      | (p, None) \<Rightarrow> (case f p of Inl e \<Rightarrow> (p, Some e) | Inr p' \<Rightarrow> (p', None)))"

text \<open>
  A list taken from \<^verbatim>\<open>personality.base_personality\<close> is the configuration's own object,
  so extending it in place shows in the configuration; text is immutable.
\<close>

fun store_prompt :: "json \<Rightarrow> json \<Rightarrow> json" where
  "store_prompt (JObj kvs) (JArr xs) =
     (case map_of kvs ''personality'' of
        Some (JObj ps) \<Rightarrow>
          JObj (dict_set ''personality'' (JObj (dict_set ''base_personality'' (JArr xs) ps)) kvs)
      | _ \<Rightarrow> JObj kvs)"
| "store_prompt config p = config"

text \<open>The method returns the configuration as it leaves it, and the prompt or the exception.\<close>

definition get_system_prompt :: "(json \<Rightarrow> string) \<Rightarrow> json \<Rightarrow> json \<times> (py_error + json)" where
  "get_system_prompt render config =
     (case section_get config ''personality'' ''base_personality'' (JStr default_system_prompt) of
        Inl e \<Rightarrow> (config, Inl e)
      | Inr base \<Rightarrow>
          (case foldl run_step (base, None)
                  [section_clause render config ''personality'' ''tone''
                     '' Your tone should be '' ''.'',
                   section_clause render config ''personality'' ''humor_level''
                     '' Use '' ''.'',
                   section_clause render config ''personality'' ''confidence''
                     '' Be '' ''.'',
                   section_clause render config ''behavior'' ''response_style''
                     '' Keep responses '' ''.'',
                   section_clause render config ''behavior'' ''problem_solving''
                     '' Approach problems in an '' '' way.'',
                   section_clause render config ''interaction_style'' ''explanation_method''
                     '' When explaining complex topics, '' ''.'']
           of
             (p, Some e) \<Rightarrow> (store_prompt config p, Inl e)
           | (p, None) \<Rightarrow> (store_prompt config p, Inr p)))"

section \<open>Response service\<close>

text \<open>
  The world outside the service: the HTTP liveness check of the constructor, the two
  calls of the runtime client, and the printing of non-text objects in f-strings. A reply
  may depend on the requests made before it, so two equal requests may be answered
  differently. A client handle is known by the host it was built for, and building it
  is taken to succeed. The calls of one operation run one after another; the event loop
  and the executor threads are not part of the model, and neither is logging.
\<close>

datatype request = HttpGet string | ClientList string | ClientChat string string json

record environment =
  http_get :: "request list \<Rightarrow> string \<Rightarrow> py_error + int"
  client_list :: "request list \<Rightarrow> string \<Rightarrow> py_error + json"
  client_chat :: "request list \<Rightarrow> string \<Rightarrow> string \<Rightarrow> json \<Rightarrow> py_error + json"
  render :: "json \<Rightarrow> string"

record service =
  model :: string
  ollama_url :: string
  client :: "string option"
  personality_config :: json

definition initialize_client ::
  "environment \<Rightarrow> service \<Rightarrow> request list \<Rightarrow> service \<times> request list" where
  "initialize_client env s h =
     (let url = ollama_url s @ ''/api/tags''; h' = h @ [HttpGet url] in
      case http_get env h url of
        Inl e \<Rightarrow> (s\<lparr>client := None\<rparr>, h')
      | Inr status_code \<Rightarrow>
          if status_code = 200 then
            (case section_get (personality_config s) ''identity'' ''name'' (JStr ''Unknown'') of
               Inl e \<Rightarrow> (s\<lparr>client := None\<rparr>, h')
             | Inr name \<Rightarrow> (s\<lparr>client := Some (ollama_url s)\<rparr>, h'))
          else (s, h'))"

text \<open>The constructor, with the defaults of its two arguments written by the caller.\<close>

definition init ::
  "environment \<Rightarrow> filesystem \<Rightarrow> string \<Rightarrow> string \<Rightarrow> request list \<Rightarrow>
     (py_error + service) \<times> fs_access list \<times> request list" where
  "init env fs m url h =
     (case load_personality_config fs of
        (acc, Inl e) \<Rightarrow> (Inl e, acc, h)
      | (acc, Inr config) \<Rightarrow>
          (case initialize_client env
                  \<lparr>model = m, ollama_url = url, client = None, personality_config = config\<rparr> h
           of (s, h') \<Rightarrow> (Inr s, acc, h')))"

text \<open>The module's instance \<^verbatim>\<open>ai_service = AIService()\<close>, built with the default arguments.\<close>

definition ai_service ::
  "environment \<Rightarrow> filesystem \<Rightarrow> request list \<Rightarrow>
     (py_error + service) \<times> fs_access list \<times> request list" where
  "ai_service env fs h = init env fs ''llama3.1:8b'' ''http://localhost:11434'' h"

text \<open>
  Every public operation returns its result or exception, the service as it leaves it,
  and the requests made so far.
\<close>

definition is_available ::
  "environment \<Rightarrow> service \<Rightarrow> request list \<Rightarrow> (py_error + bool) \<times> service \<times> request list" where
  "is_available env s h =
     (case client s of
        None \<Rightarrow> (Inr False, s, h)
      | Some host \<Rightarrow>
          (case client_list env h host of
             Inl e \<Rightarrow> (Inr False, s, h @ [ClientList host])
           | Inr response \<Rightarrow> (Inr True, s, h @ [ClientList host])))"

text \<open>
  The body of the \<^verbatim>\<open>try\<close> block of \<^verbatim>\<open>_generate_ai_response\<close>: the prompt is built, the
  chat call is made with the system message and the user's message, and the content of
  the reply is read with \<^verbatim>\<open>response['message']['content']\<close>.
\<close>

definition ai_attempt ::
  "environment \<Rightarrow> service \<Rightarrow> string \<Rightarrow> request list \<Rightarrow>
     (py_error + json) \<times> service \<times> request list" where
  "ai_attempt env s message h =
     (case get_system_prompt (render env) (personality_config s) of
        (config', Inl e) \<Rightarrow> (Inl e, s\<lparr>personality_config := config'\<rparr>, h)
      | (config', Inr system_prompt) \<Rightarrow>
          (case client s of
             None \<Rightarrow> (Inl AttributeError, s\<lparr>personality_config := config'\<rparr>, h)
           | Some host \<Rightarrow>
               (let messages =
                      JArr [JObj [(''role'', JStr ''system''), (''content'', system_prompt)],
                            JObj [(''role'', JStr ''user''), (''content'', JStr message)]]
                in (then_do (client_chat env h host (model s) messages) (\<lambda>response.
                      then_do (py_getitem response ''message'') (\<lambda>msg.
                        py_getitem msg ''content'')),
                    s\<lparr>personality_config := config'\<rparr>,
                    h @ [ClientChat host (model s) messages]))))"

text \<open>\<^verbatim>\<open>_generate_ai_response\<close>: the content of the reply, or \<^verbatim>\<open>None\<close> after any exception.\<close>

definition generate_ai_response ::
  "environment \<Rightarrow> service \<Rightarrow> string \<Rightarrow> request list \<Rightarrow> json \<times> service \<times> request list" where
  "generate_ai_response env s message h =
     (case ai_attempt env s message h of
        (Inl e, s', h') \<Rightarrow> (JNull, s', h')
      | (Inr content, s', h') \<Rightarrow> (content, s', h'))"

text \<open>
  The AI branch of \<^verbatim>\<open>generate_response\<close>: the result it returns, or nothing when the
  method goes on to the echo branch (no client, an empty reply, or an exception caught).
  \<open>now\<close> is the clock reading \<^verbatim>\<open>datetime.now().isoformat()\<close> of the call.
\<close>

definition try_ai ::
  "environment \<Rightarrow> service \<Rightarrow> string \<Rightarrow> string \<Rightarrow> request list \<Rightarrow>
     json option \<times> service \<times> request list" where
  "try_ai env s message now h =
     (case client s of
        None \<Rightarrow> (None, s, h)
      | Some host \<Rightarrow>
          (case generate_ai_response env s message h of
             (ai_response, s', h') \<Rightarrow>
               if py_truthy ai_response then
                 (case section_get (personality_config s') ''identity'' ''name'' (JStr ''AI'') of
                    Inl e \<Rightarrow> (None, s', h')
                  | Inr name \<Rightarrow>
                      (Some (JObj [(''response'', ai_response),
                                   (''mode'', JStr ''ai''),
                                   (''model'', JStr (model s')),
                                   (''personality'', name),
                                   (''timestamp'', JStr now)]), s', h'))
               else (None, s', h')))"

definition generate_response ::
  "environment \<Rightarrow> service \<Rightarrow> string \<Rightarrow> string \<Rightarrow> request list \<Rightarrow>
     (py_error + json) \<times> service \<times> request list" where
  "generate_response env s message now h =
     (case try_ai env s message now h of
        (Some result, s', h') \<Rightarrow> (Inr result, s', h')
      | (None, s', h') \<Rightarrow>
          (case section_get (personality_config s') ''identity'' ''name'' (JStr ''Assistant'') of
             Inl e \<Rightarrow> (Inl e, s', h')
           | Inr name \<Rightarrow>
               (Inr (JObj [(''response'',
                             JStr (''Echo from '' @ py_str (render env) name @ '': '' @ message)),
                           (''mode'', JStr ''echo''),
                           (''model'', JStr ''fallback''),
                           (''personality'', name),
                           (''timestamp'', JStr now)]), s', h')))"

text \<open>\<^verbatim>\<open>[model['name'] for model in ...]\<close>: the first failing item ends the comprehension.\<close>

fun model_names :: "json list \<Rightarrow> py_error + json list" where
  "model_names [] = Inr []"
| "model_names (m # ms) =
     then_do (py_getitem m ''name'') (\<lambda>n. then_do (model_names ms) (\<lambda>ns. Inr (n # ns)))"

definition status_dict :: "service \<Rightarrow> bool \<Rightarrow> py_error + (string \<times> json) list" where
  "status_dict s available =
     then_do (section_get (personality_config s) ''identity'' ''name'' (JStr ''Unknown''))
       (\<lambda>name.
     then_do (section_get (personality_config s) ''identity'' ''display_name''
                (JStr ''AI Assistant''))
       (\<lambda>display_name.
     Inr [(''ai_available'', JBool available),
          (''model'', JStr (if available then model s else ''unavailable'')),
          (''mode'', JStr (if available then ''ai'' else ''echo'')),
          (''ollama_url'', JStr (ollama_url s)),
          (''personality'',
             JObj [(''name'', name),
                   (''display_name'', display_name),
                   (''config_loaded'', JBool (personality_config s \<noteq> JNull))])]))"

definition get_status ::
  "environment \<Rightarrow> service \<Rightarrow> request list \<Rightarrow> (py_error + json) \<times> service \<times> request list" where
  "get_status env s h =
     (case is_available env s h of
        (Inl e, s', h') \<Rightarrow> (Inl e, s', h')
      | (Inr available, s', h') \<Rightarrow>
          (case status_dict s' available of
             Inl e \<Rightarrow> (Inl e, s', h')
           | Inr status \<Rightarrow>
               if available then
                 (case client s' of
                    None \<Rightarrow> (Inr (JObj status), s', h')
                  | Some host \<Rightarrow>
                      (case then_do (client_list env h' host) (\<lambda>models.
                               then_do (dict_get models ''models'' (JArr [])) (\<lambda>ms.
                                 then_do (py_iter ms) model_names))
                       of
                         Inl e \<Rightarrow> (Inr (JObj status), s', h' @ [ClientList host])
                       | Inr names \<Rightarrow>
                           (Inr (JObj (dict_set ''available_models'' (JArr names) status)),
                            s', h' @ [ClientList host])))
               else (Inr (JObj status), s', h')))"

section \<open>The configuration type of the data model\<close>

text \<open>
  A personality configuration is a dictionary whose recognised sections, where present,
  are dictionaries, and whose recognised fields, where present, are text.
\<close>

fun is_text :: "json \<Rightarrow> bool" where
  "is_text (JStr s) = True"
| "is_text _ = False"

definition fields_ok :: "(string \<times> json) list \<Rightarrow> string list \<Rightarrow> bool" where
  "fields_ok d ks = list_all (\<lambda>k. case map_of d k of None \<Rightarrow> True | Some v \<Rightarrow> is_text v) ks"

definition section_ok :: "(string \<times> json) list \<Rightarrow> string \<Rightarrow> string list \<Rightarrow> bool" where
  "section_ok kvs sec ks =
     (case map_of kvs sec of None \<Rightarrow> True | Some (JObj d) \<Rightarrow> fields_ok d ks | Some _ \<Rightarrow> False)"

fun config_ok :: "json \<Rightarrow> bool" where
  "config_ok (JObj kvs) =
     (section_ok kvs ''identity'' [''name'', ''display_name'', ''role''] \<and>
      section_ok kvs ''personality'' [''base_personality'', ''tone'', ''humor_level'', ''confidence''] \<and>
      section_ok kvs ''behavior'' [''response_style'', ''problem_solving''] \<and>
      section_ok kvs ''interaction_style'' [''explanation_method''])"
| "config_ok _ = False"

text \<open>
  The part of that type the service's reading of the assistant's name depends on: the
  configuration is a dictionary, and its identity section, where present, is one too.
\<close>

fun identity_readable :: "json \<Rightarrow> bool" where
  "identity_readable (JObj kvs) =
     (case map_of kvs ''identity'' of None \<Rightarrow> True | Some (JObj d) \<Rightarrow> True | Some _ \<Rightarrow> False)"
| "identity_readable _ = False"



text \<open>A configuration without \<open>identity.name\<close>: no identity section, or one without the key.\<close>

fun identity_name_absent :: "json \<Rightarrow> bool" where
  "identity_name_absent (JObj kvs) =
     (case map_of kvs ''identity'' of
        None \<Rightarrow> True
      | Some (JObj d) \<Rightarrow> map_of d ''name'' = None
      | Some _ \<Rightarrow> False)"
| "identity_name_absent _ = False"

definition recognised :: "(string \<times> string) list" where
  "recognised =
     [(''identity'', ''name''), (''identity'', ''display_name''), (''identity'', ''role''),
      (''personality'', ''base_personality''), (''personality'', ''tone''),
      (''personality'', ''humor_level''), (''personality'', ''confidence''),
      (''behavior'', ''response_style''), (''behavior'', ''problem_solving''),
      (''interaction_style'', ''explanation_method'')]"

text \<open>The text of a field of a section, when the configuration has it.\<close>

definition config_text :: "json \<Rightarrow> string \<Rightarrow> string \<Rightarrow> string option" where
  "config_text config sec fld =
     (case section_get config sec fld JNull of Inr (JStr t) \<Rightarrow> Some t | _ \<Rightarrow> None)"

text \<open>The configured personality name, or the given default when there is none.\<close>

definition identity_name :: "json \<Rightarrow> string \<Rightarrow> string" where
  "identity_name config dflt =
     (case config_text config ''identity'' ''name'' of None \<Rightarrow> dflt | Some n \<Rightarrow> n)"


text \<open>A field of a result that is a dictionary; the exception when there is no result.\<close>

definition result_field :: "py_error + json \<Rightarrow> string \<Rightarrow> py_error + json" where
  "result_field r k = then_do r (\<lambda>d. py_getitem d k)"

section \<open>The prompt as the specification describes it\<close>

text \<open>The clause a field contributes to the prompt: none when absent or empty.\<close>

definition clause :: "string option \<Rightarrow> string \<Rightarrow> string \<Rightarrow> string" where
  "clause field pre post =
     (case field of None \<Rightarrow> [] | Some t \<Rightarrow> if t = [] then [] else pre @ t @ post)"

definition base_text :: "json \<Rightarrow> string" where
  "base_text config =
     (case config_text config ''personality'' ''base_personality'' of
        None \<Rightarrow> default_system_prompt | Some t \<Rightarrow> t)"

definition spec_system_prompt :: "json \<Rightarrow> string" where
  "spec_system_prompt config =
     base_text config
     @ clause (config_text config ''personality'' ''tone'') '' Your tone should be '' ''.''
     @ clause (config_text config ''personality'' ''humor_level'') '' Use '' ''.''
     @ clause (config_text config ''personality'' ''confidence'') '' Be '' ''.''
     @ clause (config_text config ''behavior'' ''response_style'') '' Keep responses '' ''.''
     @ clause (config_text config ''behavior'' ''problem_solving'')
         '' Approach problems in an '' '' way.''
     @ clause (config_text config ''interaction_style'' ''explanation_method'')
         '' When explaining complex topics, '' ''.''"

definition clause_fields :: "(string \<times> string) list" where
  "clause_fields =
     [(''personality'', ''tone''), (''personality'', ''humor_level''),
      (''personality'', ''confidence''), (''behavior'', ''response_style''),
      (''behavior'', ''problem_solving''), (''interaction_style'', ''explanation_method'')]"

section \<open>The loader's search path\<close>

definition candidates :: "string list" where
  "candidates = [config_path, fallback_config_path, fallback_config_path2]"

section \<open>Example inputs\<close>

definition offline_env :: environment where
  "offline_env =
     \<lparr>http_get = (\<lambda>h url. Inl (OtherError ''ConnectError'')),
      client_list = (\<lambda>h host. Inl (OtherError ''ConnectError'')),
      client_chat = (\<lambda>h host m msgs. Inl (OtherError ''ConnectError'')),
      render = (\<lambda>v. ''?'')\<rparr>"

definition online_env :: environment where
  "online_env =
     \<lparr>http_get = (\<lambda>h url. Inr 200),
      client_list = (\<lambda>h host.
        Inr (JObj [(''models'', JArr [JObj [(''name'', JStr ''llama3.1:8b'')]])])),
      client_chat = (\<lambda>h host m msgs.
        Inr (JObj [(''message'',
                     JObj [(''role'', JStr ''assistant''), (''content'', JStr ''Hi'')])])),
      render = (\<lambda>v. ''?'')\<rparr>"

text \<open>A runtime that answers the probe and fails when asked again for its models.\<close>

definition flaky_env :: environment where
  "flaky_env =
     \<lparr>http_get = (\<lambda>h url. Inr 200),
      client_list = (\<lambda>h host.
        if h = [] then Inr (JObj [(''models'', JArr [])]) else Inl (OtherError ''ConnectError'')),
      client_chat = (\<lambda>h host m msgs. Inl (OtherError ''ResponseError'')),
      render = (\<lambda>v. ''?'')\<rparr>"

definition local_url :: string where
  "local_url = ''http://localhost:11434''"

definition offline_service :: service where
  "offline_service =
     \<lparr>model = ''llama3.1:8b'', ollama_url = local_url, client = None,
      personality_config = get_default_personality\<rparr>"

definition online_service :: service where
  "online_service =
     \<lparr>model = ''llama3.1:8b'', ollama_url = local_url, client = Some local_url,
      personality_config = get_default_personality\<rparr>"

definition terse_config :: json where
  "terse_config = JObj [(''personality'', JObj [(''base_personality'', JStr ''Be terse.'')])]"

definition terse_service :: "string option \<Rightarrow> service" where
  "terse_service c =
     \<lparr>model = ''llama3.1:8b'', ollama_url = local_url, client = c,
      personality_config = terse_config\<rparr>"

definition styled_config :: json where
  "styled_config =
     JObj [(''personality'', JObj [(''base_personality'', JStr ''Be terse.''),
                                   (''tone'', JStr ''dry''),
                                   (''humor_level'', JStr [])]),
           (''behavior'', JObj [(''response_style'', JStr ''short'')])]"

definition no_files :: filesystem where
  "no_files = (\<lambda>p. None)"

definition broken_first :: filesystem where
  "broken_first =
     (\<lambda>p. if p = config_path then Some (Inl (OtherError ''JSONDecodeError''))
          else if p = fallback_config_path then Some (Inr terse_config)
          else None)"

definition broken_second :: filesystem where
  "broken_second =
     (\<lambda>p. if p = fallback_config_path then Some (Inl (OtherError ''JSONDecodeError''))
          else if p = fallback_config_path2 then Some (Inr terse_config)
          else None)"

text \<open>Values that are valid JSON and are not personality configurations.\<close>

definition array_file :: filesystem where
  "array_file = (\<lambda>p. if p = config_path then Some (Inr (JArr [])) else None)"

definition array_service :: service where
  "array_service =
     \<lparr>model = ''llama3.1:8b'', ollama_url = local_url, client = None,
      personality_config = JArr []\<rparr>"




section \<open>Auxiliary facts\<close>

lemma then_do_simps [simp]:
  "then_do (Inl e) f = Inl e" "then_do (Inr v) f = f v"
  by (simp_all add: then_do_def)

lemma map_of_dict_set:
  "map_of (dict_set k v kvs) k' = (if k' = k then Some v else map_of kvs k')"
  by (induction kvs) auto

subsection \<open>Reading a configuration of the data model's type\<close>

lemma fields_ok_text:
  "fields_ok d ks \<Longrightarrow> k \<in> set ks \<Longrightarrow> map_of d k = Some v \<Longrightarrow> \<exists>t. v = JStr t"
  by (cases v) (auto simp: fields_ok_def list_all_iff split: option.splits)

lemma config_ok_section:
  assumes "config_ok config" "(sec, fld) \<in> set recognised"
  shows "\<exists>kvs. config = JObj kvs \<and>
           (map_of kvs sec = None \<or>
            (\<exists>d. map_of kvs sec = Some (JObj d) \<and>
                 (map_of d fld = None \<or> (\<exists>t. map_of d fld = Some (JStr t)))))"
proof -
  from assms(1) obtain kvs where c: "config = JObj kvs" by (cases config) auto
  from assms c obtain ks where ks: "section_ok kvs sec ks" "fld \<in> set ks"
    by (auto simp: recognised_def)
  show ?thesis
  proof (cases "map_of kvs sec")
    case None
    with c show ?thesis by simp
  next
    case (Some v)
    with ks(1) obtain d where d: "v = JObj d" "fields_ok d ks"
      by (cases v) (auto simp: section_ok_def)
    show ?thesis
    proof (cases "map_of d fld")
      case None
      with c Some d show ?thesis by simp
    next
      case (Some w)
      with fields_ok_text[OF d(2) ks(2)] obtain t where "w = JStr t" by blast
      with c \<open>map_of kvs sec = Some v\<close> d Some show ?thesis by simp
    qed
  qed
qed

lemma section_get_ok:
  assumes "config_ok config" "(sec, fld) \<in> set recognised"
  shows "section_get config sec fld dflt =
           Inr (case config_text config sec fld of None \<Rightarrow> dflt | Some t \<Rightarrow> JStr t)"
  using config_ok_section[OF assms]
  by (auto simp: section_get_def config_text_def)

lemma section_clause_ok:
  assumes "config_ok config" "(sec, fld) \<in> set recognised"
  shows "section_clause rnd config sec fld pre post (JStr p) =
           Inr (JStr (p @ clause (config_text config sec fld) pre post))"
  using config_ok_section[OF assms]
  by (auto simp: section_clause_def add_clause_def section_get_def config_text_def clause_def)

lemma identity_name_get:
  assumes "config_ok config"
  shows "section_get config ''identity'' ''name'' (JStr d) = Inr (JStr (identity_name config d))"
  by (simp add: section_get_ok[OF assms] recognised_def identity_name_def split: option.splits)

lemma identity_readable_iff:
  "identity_readable config \<longleftrightarrow> (\<exists>v. section_get config ''identity'' k d = Inr v)"
proof (cases config)
  case (JObj kvs)
  show ?thesis
  proof (cases "map_of kvs ''identity''")
    case None
    with JObj show ?thesis by (simp add: section_get_def)
  next
    case (Some w)
    with JObj show ?thesis by (cases w) (simp_all add: section_get_def)
  qed
qed (simp_all add: section_get_def)

lemma identity_names:
  assumes "identity_readable config"
  obtains name_ai name_echo
  where "section_get config ''identity'' ''name'' (JStr ''AI'') = Inr name_ai"
    and "section_get config ''identity'' ''name'' (JStr ''Assistant'') = Inr name_echo"
  using assms identity_readable_iff[of config "''name''"] by blast

lemma identity_name_absent_get:
  assumes "identity_name_absent config"
  shows "section_get config ''identity'' ''name'' d = Inr d"
    and "identity_readable config"
proof -
  from assms obtain kvs where c: "config = JObj kvs" by (cases config) auto
  show "section_get config ''identity'' ''name'' d = Inr d"
  proof (cases "map_of kvs ''identity''")
    case None
    with c show ?thesis by (simp add: section_get_def)
  next
    case (Some w)
    with c assms show ?thesis by (cases w) (simp_all add: section_get_def)
  qed
  from c assms show "identity_readable config"
    by (auto split: option.splits json.splits)
qed

lemma config_ok_identity_readable: "config_ok config \<Longrightarrow> identity_readable config"
  using identity_name_get[of config "''x''"] identity_readable_iff[of config "''name''" "JStr ''x''"]
  by simp

lemma config_ok_default: "config_ok get_default_personality"
  by (simp add: get_default_personality_def section_ok_def fields_ok_def)

lemma config_ok_terse: "config_ok terse_config"
  by (simp add: terse_config_def section_ok_def fields_ok_def)

lemma config_ok_styled: "config_ok styled_config"
  by (simp add: styled_config_def section_ok_def fields_ok_def)

subsection \<open>The loader\<close>

lemma paths_distinct:
  "config_path \<noteq> fallback_config_path" "config_path \<noteq> fallback_config_path2"
  "fallback_config_path \<noteq> fallback_config_path2"
  by (simp_all add: config_path_def fallback_config_path_def fallback_config_path2_def)

lemma later_candidates:
  assumes "i < j" "j < length candidates"
  shows "candidates ! j \<noteq> config_path"
    and "i = 1 \<Longrightarrow> candidates ! j = fallback_config_path2"
    and "i \<noteq> 2"
proof -
  from assms have "j = 1 \<or> j = 2" by (auto simp: candidates_def)
  then show "candidates ! j \<noteq> config_path"
    using paths_distinct by (auto simp: candidates_def)
  from assms show "i = 1 \<Longrightarrow> candidates ! j = fallback_config_path2"
    by (auto simp: candidates_def)
  from assms show "i \<noteq> 2" by (auto simp: candidates_def)
qed

lemma load_result:
  "snd (load_personality_config fs) =
     Inr (case fs config_path of
            Some (Inr c) \<Rightarrow> c
          | Some (Inl e) \<Rightarrow> get_default_personality
          | None \<Rightarrow>
             (case fs fallback_config_path of
                Some (Inr c) \<Rightarrow> c
              | Some (Inl e) \<Rightarrow> get_default_personality
              | None \<Rightarrow>
                 (case fs fallback_config_path2 of
                    Some (Inr c) \<Rightarrow> c
                  | Some (Inl e) \<Rightarrow> get_default_personality
                  | None \<Rightarrow> get_default_personality)))"
  by (simp add: load_personality_config_def load_attempt_def path_exists_def json_load_def
        split: option.splits sum.splits)

subsection \<open>The prompt and the operations under a configuration of that type\<close>

lemma get_system_prompt_ok:
  assumes "config_ok config"
  shows "get_system_prompt rnd config = (config, Inr (JStr (spec_system_prompt config)))"
proof -
  have b: "section_get config ''personality'' ''base_personality'' (JStr default_system_prompt)
             = Inr (JStr (base_text config))"
    by (simp add: section_get_ok[OF assms] recognised_def base_text_def split: option.splits)
  note c = section_clause_ok[OF assms, of _ _ rnd]
  show ?thesis
    unfolding get_system_prompt_def b
    by (simp add: c recognised_def run_step_def spec_system_prompt_def)
qed

lemma store_prompt_identity:
  "section_get (store_prompt config p) ''identity'' k d = section_get config ''identity'' k d"
proof (cases config)
  case (JObj kvs)
  show ?thesis
  proof (cases p)
    case (JArr xs)
    with JObj show ?thesis
      by (auto simp: section_get_def map_of_dict_set split: option.splits json.splits)
  qed (simp_all add: JObj)
qed simp_all

lemma get_system_prompt_identity:
  "section_get (fst (get_system_prompt rnd config)) ''identity'' k d
     = section_get config ''identity'' k d"
  by (auto simp: get_system_prompt_def store_prompt_identity
        split: sum.splits prod.splits option.splits)

lemma ai_attempt_service:
  "fst (snd (ai_attempt env s message h)) =
     s\<lparr>personality_config := fst (get_system_prompt (render env) (personality_config s))\<rparr>"
  by (auto simp: ai_attempt_def Let_def split: prod.splits sum.splits option.splits)

lemma generate_ai_response_service:
  "fst (snd (generate_ai_response env s message h)) =
     s\<lparr>personality_config := fst (get_system_prompt (render env) (personality_config s))\<rparr>"
  using ai_attempt_service[of env s message h]
  by (auto simp: generate_ai_response_def split: prod.splits sum.splits)

lemma ai_attempt_state:
  assumes "config_ok (personality_config s)"
  shows "fst (snd (ai_attempt env s message h)) = s"
  by (simp add: ai_attempt_def get_system_prompt_ok[OF assms] Let_def split: option.splits)

lemma ai_attempt_ok:
  assumes "config_ok (personality_config s)"
  shows "fst (ai_attempt env s message h) =
           (case client s of
              None \<Rightarrow> Inl AttributeError
            | Some host \<Rightarrow>
                then_do (client_chat env h host (model s)
                    (JArr [JObj [(''role'', JStr ''system''),
                                 (''content'', JStr (spec_system_prompt (personality_config s)))],
                           JObj [(''role'', JStr ''user''), (''content'', JStr message)]]))
                  (\<lambda>response. then_do (py_getitem response ''message'')
                     (\<lambda>msg. py_getitem msg ''content'')))"
  by (simp add: ai_attempt_def get_system_prompt_ok[OF assms] Let_def split: option.splits)

lemma generate_ai_response_state:
  assumes "config_ok (personality_config s)"
  shows "fst (snd (generate_ai_response env s message h)) = s"
  using ai_attempt_state[OF assms, of env message h]
  by (auto simp: generate_ai_response_def split: prod.splits sum.splits)

lemma generate_ai_response_value:
  "fst (generate_ai_response env s message h) =
     (case fst (ai_attempt env s message h) of Inl e \<Rightarrow> JNull | Inr content \<Rightarrow> content)"
  by (auto simp: generate_ai_response_def split: prod.splits sum.splits)

lemma try_ai_ok:
  assumes "config_ok (personality_config s)"
  shows "fst (try_ai env s message now h) =
           (if client s = None \<or> \<not> py_truthy (fst (generate_ai_response env s message h))
            then None
            else Some (JObj [(''response'', fst (generate_ai_response env s message h)),
                             (''mode'', JStr ''ai''),
                             (''model'', JStr (model s)),
                             (''personality'', JStr (identity_name (personality_config s) ''AI'')),
                             (''timestamp'', JStr now)]))"
    and "fst (snd (try_ai env s message now h)) = s"
  using generate_ai_response_state[OF assms, of env message h]
  by (auto simp: try_ai_def identity_name_get[OF assms] split: option.splits prod.splits)

lemma generate_response_ok:
  assumes "config_ok (personality_config s)"
  shows "fst (generate_response env s message now h) =
           Inr (if client s = None \<or> \<not> py_truthy (fst (generate_ai_response env s message h))
                then JObj [(''response'',
                             JStr (''Echo from '' @ identity_name (personality_config s) ''Assistant''
                                   @ '': '' @ message)),
                           (''mode'', JStr ''echo''),
                           (''model'', JStr ''fallback''),
                           (''personality'', JStr (identity_name (personality_config s) ''Assistant'')),
                           (''timestamp'', JStr now)]
                else JObj [(''response'', fst (generate_ai_response env s message h)),
                           (''mode'', JStr ''ai''),
                           (''model'', JStr (model s)),
                           (''personality'', JStr (identity_name (personality_config s) ''AI'')),
                           (''timestamp'', JStr now)])"
    and "fst (snd (generate_response env s message now h)) = s"
  using try_ai_ok[OF assms, of env message now h]
  by (auto simp: generate_response_def identity_name_get[OF assms]
           split: option.splits prod.splits)

lemma generate_response_result:
  assumes "section_get (personality_config s) ''identity'' ''name'' (JStr ''AI'') = Inr name_ai"
    and "section_get (personality_config s) ''identity'' ''name'' (JStr ''Assistant'')
           = Inr name_echo"
  shows "fst (generate_response env s message now h) =
           Inr (if client s = None \<or> \<not> py_truthy (fst (generate_ai_response env s message h))
                then JObj [(''response'',
                             JStr (''Echo from '' @ py_str (render env) name_echo @ '': '' @ message)),
                           (''mode'', JStr ''echo''),
                           (''model'', JStr ''fallback''),
                           (''personality'', name_echo),
                           (''timestamp'', JStr now)]
                else JObj [(''response'', fst (generate_ai_response env s message h)),
                           (''mode'', JStr ''ai''),
                           (''model'', JStr (model s)),
                           (''personality'', name_ai),
                           (''timestamp'', JStr now)])"
proof (cases "client s")
  case None
  with assms(2) show ?thesis
    by (simp add: generate_response_def try_ai_def)
next
  case (Some host)
  obtain ai s' h' where g: "generate_ai_response env s message h = (ai, s', h')"
    by (cases "generate_ai_response env s message h") auto
  with generate_ai_response_service[of env s message h]
  have s': "s' = s\<lparr>personality_config :=
                    fst (get_system_prompt (render env) (personality_config s))\<rparr>"
    by simp
  then have n: "section_get (personality_config s') ''identity'' ''name'' (JStr ''AI'') = Inr name_ai"
    "section_get (personality_config s') ''identity'' ''name'' (JStr ''Assistant'') = Inr name_echo"
    "model s' = model s"
    using assms by (simp_all add: get_system_prompt_identity)
  from Some g n show ?thesis
    by (simp add: generate_response_def try_ai_def)
qed

lemma status_dict_result:
  assumes "section_get (personality_config s) ''identity'' ''name'' (JStr ''Unknown'') = Inr name"
    and "section_get (personality_config s) ''identity'' ''display_name'' (JStr ''AI Assistant'')
           = Inr display_name"
  shows "status_dict s available =
     Inr [(''ai_available'', JBool available),
          (''model'', JStr (if available then model s else ''unavailable'')),
          (''mode'', JStr (if available then ''ai'' else ''echo'')),
          (''ollama_url'', JStr (ollama_url s)),
          (''personality'',
             JObj [(''name'', name),
                   (''display_name'', display_name),
                   (''config_loaded'', JBool True)])]"
proof -
  from assms(1) have "personality_config s \<noteq> JNull"
    by (auto simp: section_get_def)
  with assms show ?thesis
    by (simp add: status_dict_def)
qed

lemma get_status_raises:
  assumes "\<not> identity_readable (personality_config s)"
  shows "fst (get_status env s h) = Inl AttributeError"
proof -
  have "section_get (personality_config s) ''identity'' ''name'' (JStr ''Unknown'')
          = Inl AttributeError"
  proof (cases "personality_config s")
    case (JObj kvs)
    with assms obtain w where w: "map_of kvs ''identity'' = Some w" "\<forall>d. w \<noteq> JObj d"
      by (auto split: option.splits json.splits)
    with JObj show ?thesis by (cases w) (simp_all add: section_get_def)
  qed (simp_all add: section_get_def)
  then have "status_dict s available = Inl AttributeError" for available
    by (simp add: status_dict_def)
  then show ?thesis
    by (auto simp: get_status_def is_available_def split: option.splits sum.splits)
qed


subsection \<open>A prompt that is not a list leaves the configuration alone\<close>









lemma status_dict_ok:
  assumes "config_ok (personality_config s)"
  shows "status_dict s available =
     Inr [(''ai_available'', JBool available),
          (''model'', JStr (if available then model s else ''unavailable'')),
          (''mode'', JStr (if available then ''ai'' else ''echo'')),
          (''ollama_url'', JStr (ollama_url s)),
          (''personality'',
             JObj [(''name'', JStr (identity_name (personality_config s) ''Unknown'')),
                   (''display_name'',
                      (case config_text (personality_config s) ''identity'' ''display_name'' of
                         None \<Rightarrow> JStr ''AI Assistant'' | Some t \<Rightarrow> JStr t)),
                   (''config_loaded'', JBool True)])]"
proof -
  from assms have "personality_config s \<noteq> JNull" by auto
  then show ?thesis
    by (simp add: status_dict_def identity_name_get[OF assms] section_get_ok[OF assms]
          recognised_def)
qed



subsection \<open>Construction\<close>

text \<open>
  The constructor always returns a service: it holds the loaded configuration and the
  given model and address, and has a client only for its own address.
\<close>

lemma init_service:
  "\<exists>s acc h'. init env fs m url h = (Inr s, acc, h') \<and> model s = m \<and> ollama_url s = url \<and>
       snd (load_personality_config fs) = Inr (personality_config s) \<and>
       (client s = None \<or> client s = Some url)"
proof -
  obtain acc c where l: "load_personality_config fs = (acc, Inr c)"
    using load_result[of fs] by (cases "load_personality_config fs") auto
  then show ?thesis
    by (auto simp: init_def initialize_client_def Let_def split: sum.splits)
qed

lemma ai_service_no_files:
  "ai_service online_env no_files [] =
     (Inr online_service,
      [PathExists config_path, PathExists fallback_config_path, PathExists fallback_config_path2],
      [HttpGet (local_url @ ''/api/tags'')])"
proof -
  have l: "load_personality_config no_files =
     ([PathExists config_path, PathExists fallback_config_path, PathExists fallback_config_path2],
      Inr get_default_personality)"
    by (simp add: load_personality_config_def load_attempt_def path_exists_def no_files_def)
  have n: "section_get get_default_personality ''identity'' ''name'' (JStr ''Unknown'')
             = Inr (JStr ''Jarvis'')"
    by (simp add: section_get_def get_default_personality_def)
  show ?thesis
    by (simp add: ai_service_def init_def l initialize_client_def n online_service_def
          online_env_def local_url_def)
qed

section \<open>Claims about the response service\<close>



text \<open>
  Claim C2, amended. For a service whose configuration is a dictionary with a readable
  identity section, the personality field of the result of \<open>generate_response\<close> is what
  the lookup of \<open>identity.name\<close> gives: the configured name, and where the configuration
  has none \<open>AI\<close> in the AI outcome and \<open>Assistant\<close> in the echo outcome.
\<close>

theorem personality_is_identity_name:
  assumes "identity_readable (personality_config s)"
  shows "(result_field (fst (generate_response env s message now h)) ''mode'' = Inr (JStr ''ai'') \<and>
          result_field (fst (generate_response env s message now h)) ''personality''
            = section_get (personality_config s) ''identity'' ''name'' (JStr ''AI''))
       \<or> (result_field (fst (generate_response env s message now h)) ''mode'' = Inr (JStr ''echo'') \<and>
          result_field (fst (generate_response env s message now h)) ''personality''
            = section_get (personality_config s) ''identity'' ''name'' (JStr ''Assistant''))"
proof -
  from assms obtain name_ai name_echo
    where n: "section_get (personality_config s) ''identity'' ''name'' (JStr ''AI'') = Inr name_ai"
      "section_get (personality_config s) ''identity'' ''name'' (JStr ''Assistant'') = Inr name_echo"
    by (rule identity_names)
  show ?thesis
    by (simp add: generate_response_result[OF n] result_field_def n)
qed

text \<open>Claim C2, amended, at the default configuration with a runtime that answers.\<close>

theorem personality_is_identity_name_witness:
  "identity_readable (personality_config online_service) \<and>
   result_field (fst (generate_response online_env online_service ''Hello''
       ''2024-01-01T00:00:00'' [])) ''mode'' = Inr (JStr ''ai'') \<and>
   section_get (personality_config online_service) ''identity'' ''name'' (JStr ''AI'')
     = Inr (JStr ''Jarvis'') \<and>
   result_field (fst (generate_response online_env online_service ''Hello''
       ''2024-01-01T00:00:00'' [])) ''personality'' = Inr (JStr ''Jarvis'')"
proof -
  have ok: "config_ok (personality_config online_service)"
    by (simp add: online_service_def config_ok_default)
  have r: "identity_readable (personality_config online_service)"
    by (rule config_ok_identity_readable[OF ok])
  have n: "section_get (personality_config online_service) ''identity'' ''name'' (JStr d)
             = Inr (JStr ''Jarvis'')" for d
    by (simp add: section_get_def get_default_personality_def online_service_def)
  have a: "fst (generate_ai_response online_env online_service ''Hello'' []) = JStr ''Hi''"
    by (simp add: generate_ai_response_value ai_attempt_ok[OF ok])
       (simp add: online_service_def online_env_def)
  have m: "result_field (fst (generate_response online_env online_service ''Hello''
       ''2024-01-01T00:00:00'' [])) ''mode'' = Inr (JStr ''ai'')"
    by (simp add: generate_response_result[OF n n] result_field_def a)
       (simp add: online_service_def)
  from personality_is_identity_name[OF r, of online_env "''Hello''" "''2024-01-01T00:00:00''" "[]"]
    m n r
  show ?thesis by simp
qed

text \<open>
  Claim C2, as stated, fails: under the default configuration the display name is
  \<open>J.A.R.V.I.S.\<close> and the personality field of the result is \<open>Jarvis\<close>, in the
  echo outcome and in the AI outcome.
\<close>

theorem personality_is_not_display_name:
  "result_field (fst (generate_response offline_env offline_service ''Hello''
       ''2024-01-01T00:00:00'' [])) ''personality'' = Inr (JStr ''Jarvis'') \<and>
   result_field (fst (generate_response offline_env offline_service ''Hello''
       ''2024-01-01T00:00:00'' [])) ''mode'' = Inr (JStr ''echo'') \<and>
   result_field (fst (generate_response online_env online_service ''Hello''
       ''2024-01-01T00:00:00'' [])) ''personality'' = Inr (JStr ''Jarvis'') \<and>
   result_field (fst (generate_response online_env online_service ''Hello''
       ''2024-01-01T00:00:00'' [])) ''mode'' = Inr (JStr ''ai'') \<and>
   section_get (personality_config offline_service) ''identity'' ''display_name'' JNull
     = Inr (JStr ''J.A.R.V.I.S.'') \<and>
   section_get (personality_config online_service) ''identity'' ''display_name'' JNull
     = Inr (JStr ''J.A.R.V.I.S.'') \<and>
   result_field (fst (generate_response offline_env offline_service ''Hello''
       ''2024-01-01T00:00:00'' [])) ''personality''
     \<noteq> section_get (personality_config offline_service) ''identity'' ''display_name'' JNull \<and>
   result_field (fst (generate_response online_env online_service ''Hello''
       ''2024-01-01T00:00:00'' [])) ''personality''
     \<noteq> section_get (personality_config online_service) ''identity'' ''display_name'' JNull"
proof -
  have ok: "config_ok (personality_config offline_service)"
    "config_ok (personality_config online_service)"
    by (simp_all add: offline_service_def online_service_def config_ok_default)
  have n: "identity_name get_default_personality d = ''Jarvis''" for d
    by (simp add: identity_name_def config_text_def section_get_def get_default_personality_def)
  have a: "fst (generate_ai_response online_env online_service ''Hello'' []) = JStr ''Hi''"
    by (simp add: generate_ai_response_value ai_attempt_ok[OF ok(2)])
       (simp add: online_service_def online_env_def)
  have 1: "result_field (fst (generate_response offline_env offline_service ''Hello''
       ''2024-01-01T00:00:00'' [])) ''personality'' = Inr (JStr ''Jarvis'')"
    "result_field (fst (generate_response offline_env offline_service ''Hello''
       ''2024-01-01T00:00:00'' [])) ''mode'' = Inr (JStr ''echo'')"
    by (simp_all add: generate_response_ok(1)[OF ok(1)] result_field_def)
       (simp_all add: offline_service_def n)
  have 2: "result_field (fst (generate_response online_env online_service ''Hello''
       ''2024-01-01T00:00:00'' [])) ''personality'' = Inr (JStr ''Jarvis'')"
    "result_field (fst (generate_response online_env online_service ''Hello''
       ''2024-01-01T00:00:00'' [])) ''mode'' = Inr (JStr ''ai'')"
    by (simp_all add: generate_response_ok(1)[OF ok(2)] result_field_def a)
       (simp_all add: online_service_def n)
  have 3: "section_get get_default_personality ''identity'' ''display_name'' JNull
             = Inr (JStr ''J.A.R.V.I.S.'')"
    by (simp add: section_get_def get_default_personality_def)
  then have 4: "section_get (personality_config offline_service) ''identity'' ''display_name'' JNull
             = Inr (JStr ''J.A.R.V.I.S.'')"
    "section_get (personality_config online_service) ''identity'' ''display_name'' JNull
             = Inr (JStr ''J.A.R.V.I.S.'')"
    by (simp_all add: offline_service_def online_service_def)
  from 1 2 4 show ?thesis by simp
qed



text \<open>
  Claim C10. When the configuration has no \<open>identity.name\<close>, the echo outcome of
  \<open>generate_response\<close> names the assistant \<open>Assistant\<close>, its AI outcome names it
  \<open>AI\<close>, and \<open>get_status\<close> reports the name \<open>Unknown\<close>.
\<close>

theorem default_names_differ:
  assumes "identity_name_absent (personality_config s)"
  shows "(result_field (fst (generate_response env s message now h)) ''mode'' = Inr (JStr ''echo'')
          \<longrightarrow> result_field (fst (generate_response env s message now h)) ''response''
                = Inr (JStr (''Echo from Assistant: '' @ message)) \<and>
              result_field (fst (generate_response env s message now h)) ''personality''
                = Inr (JStr ''Assistant''))
       \<and> (result_field (fst (generate_response env s message now h)) ''mode'' = Inr (JStr ''ai'')
          \<longrightarrow> result_field (fst (generate_response env s message now h)) ''personality''
                = Inr (JStr ''AI''))
       \<and> result_field (result_field (fst (get_status env s h)) ''personality'') ''name''
           = Inr (JStr ''Unknown'')"
proof -
  note n = identity_name_absent_get(1)[OF assms]
  from identity_name_absent_get(2)[OF assms] obtain dn
    where d: "section_get (personality_config s) ''identity'' ''display_name''
                (JStr ''AI Assistant'') = Inr dn"
    using identity_readable_iff by blast
  have g: "result_field (result_field (fst (get_status env s h)) ''personality'') ''name''
           = Inr (JStr ''Unknown'')"
    by (auto simp: get_status_def is_available_def status_dict_result[OF n d] result_field_def
          map_of_dict_set split: option.splits sum.splits)
  show ?thesis
    by (simp add: generate_response_result[OF n n] result_field_def g[unfolded result_field_def])
qed

text \<open>Claim C10 at a configuration that holds a base personality only, without and with a client.\<close>

theorem default_names_differ_witness:
  "identity_name_absent (personality_config (terse_service None)) \<and>
   fst (generate_response online_env (terse_service None) ''Hello'' ''2024-01-01T00:00:00'' []) =
     Inr (JObj [(''response'', JStr ''Echo from Assistant: Hello''),
                (''mode'', JStr ''echo''),
                (''model'', JStr ''fallback''),
                (''personality'', JStr ''Assistant''),
                (''timestamp'', JStr ''2024-01-01T00:00:00'')]) \<and>
   identity_name_absent (personality_config (terse_service (Some local_url))) \<and>
   result_field (fst (generate_response online_env (terse_service (Some local_url)) ''Hello''
       ''2024-01-01T00:00:00'' [])) ''mode'' = Inr (JStr ''ai'') \<and>
   result_field (fst (generate_response online_env (terse_service (Some local_url)) ''Hello''
       ''2024-01-01T00:00:00'' [])) ''personality'' = Inr (JStr ''AI'') \<and>
   result_field (result_field (fst (get_status online_env (terse_service (Some local_url)) []))
       ''personality'') ''name'' = Inr (JStr ''Unknown'')"
proof -
  have ok: "config_ok (personality_config (terse_service c))" for c
    by (simp add: terse_service_def config_ok_terse)
  have ab: "identity_name_absent (personality_config (terse_service c))" for c
    by (simp add: terse_service_def terse_config_def)
  note n = identity_name_absent_get(1)[OF ab]
  have e: "fst (generate_response online_env (terse_service None) ''Hello''
              ''2024-01-01T00:00:00'' []) =
     Inr (JObj [(''response'', JStr ''Echo from Assistant: Hello''),
                (''mode'', JStr ''echo''),
                (''model'', JStr ''fallback''),
                (''personality'', JStr ''Assistant''),
                (''timestamp'', JStr ''2024-01-01T00:00:00'')])"
    by (simp add: generate_response_result[OF n n]) (simp add: terse_service_def)
  have a: "fst (generate_ai_response online_env (terse_service (Some local_url)) ''Hello'' [])
             = JStr ''Hi''"
    by (simp add: generate_ai_response_value ai_attempt_ok[OF ok])
       (simp add: terse_service_def online_env_def)
  have m: "result_field (fst (generate_response online_env (terse_service (Some local_url))
       ''Hello'' ''2024-01-01T00:00:00'' [])) ''mode'' = Inr (JStr ''ai'')"
    by (simp add: generate_response_result[OF n n] result_field_def a)
       (simp add: terse_service_def)
  from default_names_differ[OF ab, of online_env "Some local_url" "''Hello''"
         "''2024-01-01T00:00:00''" "[]"] m
  have 1: "result_field (fst (generate_response online_env (terse_service (Some local_url)) ''Hello''
       ''2024-01-01T00:00:00'' [])) ''personality'' = Inr (JStr ''AI'')"
    and 2: "result_field (result_field (fst (get_status online_env
       (terse_service (Some local_url)) [])) ''personality'') ''name'' = Inr (JStr ''Unknown'')"
    by blast+
  from ab e m 1 2 show ?thesis by blast
qed

section \<open>Claims about availability and status\<close>

text \<open>
  Claim C7. Without a client handle \<open>is_available\<close> returns false and makes no request.
  With a handle it makes the probe and returns true exactly when the probe returns; an
  exception of the probe becomes the result false.
\<close>

theorem is_available_probe:
  "(client s = None \<longrightarrow> is_available env s h = (Inr False, s, h))
   \<and> (\<forall>host. client s = Some host \<longrightarrow>
         is_available env s h =
           (Inr (\<exists>response. client_list env h host = Inr response), s, h @ [ClientList host]))"
  by (auto simp: is_available_def split: sum.splits)

text \<open>Claim C7 without a client, and with a client for a runtime that answers and one that does not.\<close>

theorem is_available_probe_witness:
  "client offline_service = None \<and>
   is_available online_env offline_service [] = (Inr False, offline_service, []) \<and>
   client online_service = Some local_url \<and>
   is_available online_env online_service [] = (Inr True, online_service, [ClientList local_url]) \<and>
   is_available offline_env online_service [] = (Inr False, online_service, [ClientList local_url])"
proof -
  have c: "client offline_service = None" "client online_service = Some local_url"
    by (simp_all add: offline_service_def online_service_def)
  have l: "(\<exists>response. client_list online_env [] local_url = Inr response)"
          "\<not> (\<exists>response. client_list offline_env [] local_url = Inr response)"
    by (simp_all add: online_env_def offline_env_def)
  from is_available_probe[of offline_service online_env "[]"]
       is_available_probe[of online_service online_env "[]"]
       is_available_probe[of online_service offline_env "[]"] c l
  show ?thesis by simp
qed

text \<open>
  Claim C6, amended. For a service whose configuration is a dictionary with a readable
  identity section, \<open>get_status\<close> returns a dictionary for every outcome of the probe and
  of the enumeration. Every field other than \<open>available_models\<close> is the one the status
  has before the enumeration, and \<open>available_models\<close> is present only when
  \<open>ai_available\<close> is true, the enumeration call returned and the names could be read
  from its reply; it then holds these names. For every other configuration \<open>get_status\<close>
  raises \<open>AttributeError\<close>.
\<close>

theorem get_status_total:
  "(identity_readable (personality_config s) \<longrightarrow>
      (\<exists>status base.
           fst (get_status env s h) = Inr (JObj status)
         \<and> status_dict s (fst (is_available env s h) = Inr True) = Inr base
         \<and> (\<forall>k. k \<noteq> ''available_models'' \<longrightarrow> map_of status k = map_of base k)
         \<and> (\<forall>v. map_of status ''available_models'' = Some v \<longrightarrow>
               map_of status ''ai_available'' = Some (JBool True) \<and>
               (\<exists>host models names. client s = Some host \<and>
                  client_list env (h @ [ClientList host]) host = Inr models \<and>
                  then_do (dict_get models ''models'' (JArr []))
                    (\<lambda>ms. then_do (py_iter ms) model_names) = Inr names \<and>
                  v = JArr names))))
   \<and> (\<not> identity_readable (personality_config s) \<longrightarrow>
         fst (get_status env s h) = Inl AttributeError)"
proof -
  have main: "\<exists>status base.
           fst (get_status env s h) = Inr (JObj status)
         \<and> status_dict s (fst (is_available env s h) = Inr True) = Inr base
         \<and> (\<forall>k. k \<noteq> ''available_models'' \<longrightarrow> map_of status k = map_of base k)
         \<and> (\<forall>v. map_of status ''available_models'' = Some v \<longrightarrow>
               map_of status ''ai_available'' = Some (JBool True) \<and>
               (\<exists>host models names. client s = Some host \<and>
                  client_list env (h @ [ClientList host]) host = Inr models \<and>
                  then_do (dict_get models ''models'' (JArr []))
                    (\<lambda>ms. then_do (py_iter ms) model_names) = Inr names \<and>
                  v = JArr names))"
    if r: "identity_readable (personality_config s)"
  proof -
    define available where "available = (fst (is_available env s h) = Inr True)"
    from r obtain name display_name
      where "section_get (personality_config s) ''identity'' ''name'' (JStr ''Unknown'') = Inr name"
        and "section_get (personality_config s) ''identity'' ''display_name''
               (JStr ''AI Assistant'') = Inr display_name"
      using identity_readable_iff by blast
    note sd = status_dict_result[OF this]
    obtain base where b: "status_dict s available = Inr base"
      and n: "map_of base ''available_models'' = None"
      and a: "map_of base ''ai_available'' = Some (JBool available)"
      by (simp add: sd)
    have plain: ?thesis if "fst (get_status env s h) = Inr (JObj base)"
      using that b n unfolding available_def[symmetric] by auto
    show ?thesis
    proof (cases "client s")
      case None
      then have "is_available env s h = (Inr False, s, h)"
        by (simp add: is_available_def)
      with b have "fst (get_status env s h) = Inr (JObj base)"
        by (simp add: get_status_def available_def)
      then show ?thesis by (rule plain)
    next
      case (Some host)
      show ?thesis
      proof (cases "client_list env h host")
        case (Inl e)
        with Some have "is_available env s h = (Inr False, s, h @ [ClientList host])"
          by (simp add: is_available_def)
        with b have "fst (get_status env s h) = Inr (JObj base)"
          by (simp add: get_status_def available_def)
        then show ?thesis by (rule plain)
      next
        case (Inr response)
        with Some have i: "is_available env s h = (Inr True, s, h @ [ClientList host])"
          by (simp add: is_available_def)
        then have av: "available" by (simp add: available_def)
        show ?thesis
        proof (cases "then_do (client_list env (h @ [ClientList host]) host)
                        (\<lambda>models. then_do (dict_get models ''models'' (JArr []))
                           (\<lambda>ms. then_do (py_iter ms) model_names))")
          case (Inl e)
          with i b av Some have "fst (get_status env s h) = Inr (JObj base)"
            by (simp add: get_status_def)
          then show ?thesis by (rule plain)
        next
          case enum: (Inr names)
          then obtain models
            where m: "client_list env (h @ [ClientList host]) host = Inr models"
              and e: "then_do (dict_get models ''models'' (JArr []))
                        (\<lambda>ms. then_do (py_iter ms) model_names) = Inr names"
            by (cases "client_list env (h @ [ClientList host]) host") auto
          from enum i b av Some have g: "fst (get_status env s h) =
              Inr (JObj (dict_set ''available_models'' (JArr names) base))"
            by (simp add: get_status_def)
          from a av
          have "map_of (dict_set ''available_models'' (JArr names) base) ''ai_available''
                  = Some (JBool True)"
            by (simp add: map_of_dict_set)
          with g b Some m e show ?thesis unfolding available_def[symmetric]
            by (auto simp: map_of_dict_set)
        qed
      qed
    qed
  qed
  from main get_status_raises show ?thesis by blast
qed

text \<open>
  Claim C6, amended, at a runtime that answers both calls, and at one that answers the
  probe and fails the enumeration.
\<close>

theorem get_status_total_witness:
  "identity_readable (personality_config online_service) \<and>
   fst (get_status online_env online_service []) =
     Inr (JObj [(''ai_available'', JBool True),
                (''model'', JStr ''llama3.1:8b''),
                (''mode'', JStr ''ai''),
                (''ollama_url'', JStr local_url),
                (''personality'', JObj [(''name'', JStr ''Jarvis''),
                                        (''display_name'', JStr ''J.A.R.V.I.S.''),
                                        (''config_loaded'', JBool True)]),
                (''available_models'', JArr [JStr ''llama3.1:8b''])]) \<and>
   (\<exists>host models names. client online_service = Some host \<and>
      client_list online_env ([] @ [ClientList host]) host = Inr models \<and>
      then_do (dict_get models ''models'' (JArr []))
        (\<lambda>ms. then_do (py_iter ms) model_names) = Inr names \<and>
      JArr [JStr ''llama3.1:8b''] = JArr names) \<and>
   fst (get_status flaky_env online_service []) =
     Inr (JObj [(''ai_available'', JBool True),
                (''model'', JStr ''llama3.1:8b''),
                (''mode'', JStr ''ai''),
                (''ollama_url'', JStr local_url),
                (''personality'', JObj [(''name'', JStr ''Jarvis''),
                                        (''display_name'', JStr ''J.A.R.V.I.S.''),
                                        (''config_loaded'', JBool True)])])"
proof -
  have ok: "config_ok (personality_config online_service)"
    by (simp add: online_service_def config_ok_default)
  have r: "identity_readable (personality_config online_service)"
    by (rule config_ok_identity_readable[OF ok])
  have n: "identity_name (personality_config online_service) ''Unknown'' = ''Jarvis''"
    "config_text (personality_config online_service) ''identity'' ''display_name''
       = Some ''J.A.R.V.I.S.''"
    by (simp_all add: identity_name_def config_text_def section_get_def online_service_def
          get_default_personality_def)
  have f: "model online_service = ''llama3.1:8b''" "ollama_url online_service = local_url"
    "client online_service = Some local_url"
    by (simp_all add: online_service_def)
  have ia: "is_available online_env online_service []
              = (Inr True, online_service, [ClientList local_url])"
    "is_available flaky_env online_service []
              = (Inr True, online_service, [ClientList local_url])"
    by (simp_all add: is_available_def f online_env_def flaky_env_def)
  have cl: "client_list online_env h host =
              Inr (JObj [(''models'', JArr [JObj [(''name'', JStr ''llama3.1:8b'')]])])"
    "client_list flaky_env [ClientList local_url] host = Inl (OtherError ''ConnectError'')"
    for h host
    by (simp_all add: online_env_def flaky_env_def)
  have 1: "fst (get_status online_env online_service []) =
     Inr (JObj [(''ai_available'', JBool True),
                (''model'', JStr ''llama3.1:8b''),
                (''mode'', JStr ''ai''),
                (''ollama_url'', JStr local_url),
                (''personality'', JObj [(''name'', JStr ''Jarvis''),
                                        (''display_name'', JStr ''J.A.R.V.I.S.''),
                                        (''config_loaded'', JBool True)]),
                (''available_models'', JArr [JStr ''llama3.1:8b''])])"
    by (simp add: get_status_def ia(1) status_dict_ok[OF ok] n f cl(1))
  have 2: "fst (get_status flaky_env online_service []) =
     Inr (JObj [(''ai_available'', JBool True),
                (''model'', JStr ''llama3.1:8b''),
                (''mode'', JStr ''ai''),
                (''ollama_url'', JStr local_url),
                (''personality'', JObj [(''name'', JStr ''Jarvis''),
                                        (''display_name'', JStr ''J.A.R.V.I.S.''),
                                        (''config_loaded'', JBool True)])])"
    by (simp add: get_status_def ia(2) status_dict_ok[OF ok] n f cl(2))
  from get_status_total[of online_service online_env "[]"] r 1
  have 3: "\<exists>host models names. client online_service = Some host \<and>
      client_list online_env ([] @ [ClientList host]) host = Inr models \<and>
      then_do (dict_get models ''models'' (JArr []))
        (\<lambda>ms. then_do (py_iter ms) model_names) = Inr names \<and>
      JArr [JStr ''llama3.1:8b''] = JArr names"
    by (auto simp: map_of_dict_set)
  from r 1 2 3 show ?thesis by blast
qed

text \<open>
  Claim C6, as stated, fails: from a configuration file that holds the JSON list \<open>[]\<close>
  the constructor builds a service, and \<open>get_status\<close> raises \<open>AttributeError\<close> on it.
\<close>

theorem get_status_raises_for_array_config:
  "ai_service online_env array_file [] =
     (Inr array_service, [PathExists config_path, OpenAndParse config_path],
      [HttpGet (local_url @ ''/api/tags'')]) \<and>
   fst (get_status online_env array_service [HttpGet (local_url @ ''/api/tags'')])
     = Inl AttributeError"
proof -
  have l: "load_personality_config array_file =
     ([PathExists config_path, OpenAndParse config_path], Inr (JArr []))"
    by (simp add: load_personality_config_def load_attempt_def path_exists_def json_load_def
          array_file_def)
  have 1: "ai_service online_env array_file [] =
     (Inr array_service, [PathExists config_path, OpenAndParse config_path],
      [HttpGet (local_url @ ''/api/tags'')])"
    by (simp add: ai_service_def init_def l initialize_client_def section_get_def online_env_def
          local_url_def array_service_def)
  have 2: "fst (get_status online_env array_service [HttpGet (local_url @ ''/api/tags'')])
     = Inl AttributeError"
    by (simp add: get_status_def is_available_def status_dict_def section_get_def
          array_service_def)
  from 1 2 show ?thesis by blast
qed




section \<open>Claim about system prompt assembly\<close>

text \<open>
  Claim C3. For a configuration of the data model's type the prompt is the base
  personality, or the default sentence, followed in the fixed order by one clause for each
  of the six fields that is present and non-empty; the configuration is left as it was;
  with a base personality and none of the six fields the prompt is the base personality;
  and a second call gives the same result.
\<close>

theorem system_prompt_assembly:
  assumes "config_ok config"
  shows "get_system_prompt rnd config = (config, Inr (JStr (spec_system_prompt config)))
       \<and> (config_text config ''personality'' ''base_personality'' = Some b \<and>
            (\<forall>(sec, fld) \<in> set clause_fields. config_text config sec fld = None)
          \<longrightarrow> snd (get_system_prompt rnd config) = Inr (JStr b))
       \<and> get_system_prompt rnd (fst (get_system_prompt rnd config)) = get_system_prompt rnd config"
proof -
  have 1: "get_system_prompt rnd config = (config, Inr (JStr (spec_system_prompt config)))"
    by (rule get_system_prompt_ok[OF assms])
  have 2: "spec_system_prompt config = b"
    if "config_text config ''personality'' ''base_personality'' = Some b"
      and "\<forall>(sec, fld) \<in> set clause_fields. config_text config sec fld = None"
    using that by (simp add: spec_system_prompt_def base_text_def clause_fields_def clause_def)
  from 1 2 show ?thesis by simp
qed

text \<open>
  Claim C3 at a configuration with a tone, an empty humor level and a response style,
  and at one that holds a base personality only.
\<close>

theorem system_prompt_assembly_witness:
  "config_ok styled_config \<and> config_ok terse_config \<and>
   get_system_prompt (render offline_env) styled_config =
     (styled_config, Inr (JStr ''Be terse. Your tone should be dry. Keep responses short.'')) \<and>
   config_text terse_config ''personality'' ''base_personality'' = Some ''Be terse.'' \<and>
   config_text terse_config ''personality'' ''tone'' = None \<and>
   config_text terse_config ''personality'' ''humor_level'' = None \<and>
   config_text terse_config ''personality'' ''confidence'' = None \<and>
   config_text terse_config ''behavior'' ''response_style'' = None \<and>
   config_text terse_config ''behavior'' ''problem_solving'' = None \<and>
   config_text terse_config ''interaction_style'' ''explanation_method'' = None \<and>
   snd (get_system_prompt (render offline_env) terse_config) = Inr (JStr ''Be terse.'')"
proof -
  have s: "spec_system_prompt styled_config
             = ''Be terse. Your tone should be dry. Keep responses short.''"
    by (simp add: spec_system_prompt_def base_text_def clause_def config_text_def
          section_get_def styled_config_def)
  have b: "config_text terse_config ''personality'' ''base_personality'' = Some ''Be terse.''"
    by (simp add: config_text_def section_get_def terse_config_def)
  have n: "config_text terse_config ''personality'' ''tone'' = None"
    "config_text terse_config ''personality'' ''humor_level'' = None"
    "config_text terse_config ''personality'' ''confidence'' = None"
    "config_text terse_config ''behavior'' ''response_style'' = None"
    "config_text terse_config ''behavior'' ''problem_solving'' = None"
    "config_text terse_config ''interaction_style'' ''explanation_method'' = None"
    by (simp_all add: config_text_def section_get_def terse_config_def)
  then have a: "\<forall>(sec, fld) \<in> set clause_fields. config_text terse_config sec fld = None"
    by (simp add: clause_fields_def)
  from system_prompt_assembly[OF config_ok_styled, of "render offline_env"] s
  have 1: "get_system_prompt (render offline_env) styled_config =
     (styled_config, Inr (JStr ''Be terse. Your tone should be dry. Keep responses short.''))"
    by simp
  from system_prompt_assembly[OF config_ok_terse, of "render offline_env" "''Be terse.''"] b a
  have 2: "snd (get_system_prompt (render offline_env) terse_config) = Inr (JStr ''Be terse.'')"
    by blast
  from 1 2 b n config_ok_styled config_ok_terse show ?thesis by blast
qed

section \<open>Claims about the configuration loader\<close>

text \<open>
  Claim C4. When the first candidate that exists cannot be opened or parsed, the loader
  returns the built-in default, and its file-system accesses are the existence checks up
  to that candidate and the one attempt to read it: no later candidate is checked or read.
\<close>

theorem parse_failure_stops_search:
  assumes "i < length candidates"
    and "\<forall>j<i. fs (candidates ! j) = None"
    and "fs (candidates ! i) = Some (Inl e)"
  shows "load_personality_config fs =
           (map PathExists (take (Suc i) candidates) @ [OpenAndParse (candidates ! i)],
            Inr get_default_personality)
       \<and> (\<forall>j. i < j \<and> j < length candidates \<longrightarrow>
              PathExists (candidates ! j) \<notin> set (fst (load_personality_config fs)) \<and>
              OpenAndParse (candidates ! j) \<notin> set (fst (load_personality_config fs)))"
proof -
  from assms(1) have "i < 3" by (simp add: candidates_def)
  then consider "i = 0" | "i = 1" | "i = 2" by linarith
  then show ?thesis
  proof cases
    case 1
    with assms(3) have "fs config_path = Some (Inl e)"
      by (simp add: candidates_def)
    then have l: "load_personality_config fs =
        ([PathExists config_path, OpenAndParse config_path], Inr get_default_personality)"
      by (simp add: load_personality_config_def load_attempt_def path_exists_def json_load_def)
    have t: "map PathExists (take (Suc i) candidates) @ [OpenAndParse (candidates ! i)]
               = [PathExists config_path, OpenAndParse config_path]"
      using 1 by (simp add: candidates_def)
    from l t later_candidates(1) show ?thesis by auto
  next
    case 2
    with assms(2) have "fs (candidates ! 0) = None" by simp
    then have a: "fs config_path = None" by (simp add: candidates_def)
    from 2 assms(3) have "fs fallback_config_path = Some (Inl e)"
      by (simp add: candidates_def)
    with a have l: "load_personality_config fs =
        ([PathExists config_path, PathExists fallback_config_path,
          OpenAndParse fallback_config_path], Inr get_default_personality)"
      by (simp add: load_personality_config_def load_attempt_def path_exists_def json_load_def)
    have t: "map PathExists (take (Suc i) candidates) @ [OpenAndParse (candidates ! i)]
               = [PathExists config_path, PathExists fallback_config_path,
                  OpenAndParse fallback_config_path]"
      using 2 by (simp add: candidates_def numeral_2_eq_2)
    from 2 l t later_candidates(2) paths_distinct show ?thesis by auto
  next
    case 3
    with assms(2) have "fs (candidates ! 0) = None" "fs (candidates ! 1) = None"
      by simp_all
    then have a: "fs config_path = None" "fs fallback_config_path = None"
      by (simp_all add: candidates_def)
    from 3 assms(3) have "fs fallback_config_path2 = Some (Inl e)"
      by (simp add: candidates_def)
    with a have l: "load_personality_config fs =
        ([PathExists config_path, PathExists fallback_config_path,
          PathExists fallback_config_path2, OpenAndParse fallback_config_path2],
         Inr get_default_personality)"
      by (simp add: load_personality_config_def load_attempt_def path_exists_def json_load_def)
    have t: "map PathExists (take (Suc i) candidates) @ [OpenAndParse (candidates ! i)]
               = [PathExists config_path, PathExists fallback_config_path,
                  PathExists fallback_config_path2, OpenAndParse fallback_config_path2]"
      using 3 by (simp add: candidates_def numeral_3_eq_3)
    from 3 l t later_candidates(3) show ?thesis by auto
  qed
qed

text \<open>
  Claim C4 where the first candidate is absent, the second is invalid and the third holds
  a valid configuration.
\<close>

theorem parse_failure_stops_search_witness:
  "(1::nat) < length candidates \<and>
   broken_second (candidates ! 0) = None \<and>
   broken_second (candidates ! 1) = Some (Inl (OtherError ''JSONDecodeError'')) \<and>
   broken_second (candidates ! 2) = Some (Inr terse_config) \<and>
   load_personality_config broken_second =
     ([PathExists config_path, PathExists fallback_config_path,
       OpenAndParse fallback_config_path], Inr get_default_personality) \<and>
   PathExists (candidates ! 2) \<notin> set (fst (load_personality_config broken_second)) \<and>
   OpenAndParse (candidates ! 2) \<notin> set (fst (load_personality_config broken_second))"
proof -
  have a: "(1::nat) < length candidates" by (simp add: candidates_def)
  have b0: "broken_second (candidates ! 0) = None"
    using paths_distinct by (simp add: broken_second_def candidates_def)
  then have b: "\<forall>j<(1::nat). broken_second (candidates ! j) = None" by simp
  have c: "broken_second (candidates ! 1) = Some (Inl (OtherError ''JSONDecodeError''))"
    by (simp add: broken_second_def candidates_def)
  have d: "broken_second (candidates ! 2) = Some (Inr terse_config)"
    using paths_distinct by (simp add: broken_second_def candidates_def)
  have t: "map PathExists (take (Suc 1) candidates) @ [OpenAndParse (candidates ! 1)] =
     [PathExists config_path, PathExists fallback_config_path, OpenAndParse fallback_config_path]"
    by (simp add: candidates_def)
  have e: "(1::nat) < 2 \<and> 2 < length candidates" by (simp add: candidates_def)
  note th = parse_failure_stops_search[OF a b c]
  from th t have l: "load_personality_config broken_second =
     ([PathExists config_path, PathExists fallback_config_path,
       OpenAndParse fallback_config_path], Inr get_default_personality)"
    by simp
  from th e
  have n: "PathExists (candidates ! 2) \<notin> set (fst (load_personality_config broken_second)) \<and>
         OpenAndParse (candidates ! 2) \<notin> set (fst (load_personality_config broken_second))"
    by blast
  from a b0 c d l n show ?thesis by blast
qed

text \<open>
  Claim C5. The loader returns a configuration for every file system. When no candidate
  exists, or the first that exists cannot be opened or parsed, it is the built-in default,
  which has the type of the data model, the name \<open>Jarvis\<close> and the compiled-in base
  personality.
\<close>

theorem loader_never_raises:
  "(\<exists>config. snd (load_personality_config fs) = Inr config)
   \<and> ((\<forall>p \<in> set candidates. fs p = None)
        \<longrightarrow> snd (load_personality_config fs) = Inr get_default_personality)
   \<and> ((\<exists>i e. i < length candidates \<and> (\<forall>j<i. fs (candidates ! j) = None) \<and>
               fs (candidates ! i) = Some (Inl e))
        \<longrightarrow> snd (load_personality_config fs) = Inr get_default_personality)
   \<and> config_ok get_default_personality
   \<and> config_text get_default_personality ''identity'' ''name'' = Some ''Jarvis''
   \<and> config_text get_default_personality ''personality'' ''base_personality''
        = Some default_base_personality"
proof -
  have 1: "\<exists>config. snd (load_personality_config fs) = Inr config"
    by (simp add: load_result)
  have 2: "snd (load_personality_config fs) = Inr get_default_personality"
    if "\<forall>p \<in> set candidates. fs p = None"
    using that by (simp add: load_result candidates_def)
  have 3: "snd (load_personality_config fs) = Inr get_default_personality"
    if "i < length candidates" "\<forall>j<i. fs (candidates ! j) = None"
       "fs (candidates ! i) = Some (Inl e)" for i e
  proof -
    from that(1) have "i < 3" by (simp add: candidates_def)
    then consider "i = 0" | "i = 1" | "i = 2" by linarith
    then show ?thesis
    proof cases
      case 1
      with that(3) show ?thesis by (simp add: load_result candidates_def)
    next
      case 2
      with that(2) have "fs (candidates ! 0) = None" by simp
      with 2 that(3) show ?thesis by (simp add: load_result candidates_def)
    next
      case 3
      with that(2) have "fs (candidates ! 0) = None" "fs (candidates ! 1) = None" by simp_all
      with 3 that(3) show ?thesis by (simp add: load_result candidates_def)
    qed
  qed
  have 4: "config_text get_default_personality ''identity'' ''name'' = Some ''Jarvis''"
    "config_text get_default_personality ''personality'' ''base_personality''
        = Some default_base_personality"
    by (simp_all add: config_text_def section_get_def get_default_personality_def)
  from 1 2 3 4 config_ok_default show ?thesis by blast
qed

text \<open>Claim C5 with no file at all, and with an invalid first candidate.\<close>

theorem loader_never_raises_witness:
  "no_files config_path = None \<and> no_files fallback_config_path = None \<and>
   no_files fallback_config_path2 = None \<and>
   load_personality_config no_files =
     ([PathExists config_path, PathExists fallback_config_path,
       PathExists fallback_config_path2], Inr get_default_personality) \<and>
   (\<exists>i e. i < length candidates \<and> (\<forall>j<i. broken_first (candidates ! j) = None) \<and>
           broken_first (candidates ! i) = Some (Inl e)) \<and>
   snd (load_personality_config broken_first) = Inr get_default_personality"
proof -
  have a: "\<forall>p \<in> set candidates. no_files p = None" by (simp add: no_files_def)
  have t: "fst (load_personality_config no_files) =
     [PathExists config_path, PathExists fallback_config_path, PathExists fallback_config_path2]"
    by (simp add: load_personality_config_def load_attempt_def path_exists_def no_files_def)
  have b: "\<exists>i e. i < length candidates \<and> (\<forall>j<i. broken_first (candidates ! j) = None) \<and>
           broken_first (candidates ! i) = Some (Inl e)"
    by (rule exI[of _ 0]) (simp add: broken_first_def candidates_def)
  from loader_never_raises[of no_files] a
  have 1: "snd (load_personality_config no_files) = Inr get_default_personality" by blast
  from loader_never_raises[of broken_first] b
  have 2: "snd (load_personality_config broken_first) = Inr get_default_personality" by blast
  from 1 t have "load_personality_config no_files =
     ([PathExists config_path, PathExists fallback_config_path,
       PathExists fallback_config_path2], Inr get_default_personality)"
    by (simp add: prod_eq_iff)
  with b 2 show ?thesis by (simp add: no_files_def)
qed

section \<open>Values outside the configuration type\<close>

text \<open>
  The loader returns whatever valid JSON the file holds. With a list for configuration
  the lookup of the name raises in \<open>generate_response\<close> too.
\<close>

lemma generate_response_raises_for_array_config:
  "fst (generate_response env array_service message now h) = Inl AttributeError"
  by (simp add: generate_response_def try_ai_def section_get_def array_service_def)

end
